theory Spec2Isabelle
  imports Complex_Main "HOL-Library.Word"
begin

section \<open>The arithmetic type \<open>rta_real_t\<close>\<close>

text \<open>
  \<open>rta_real_t\<close> is the floating-point type the library is configured with. It is taken to
  be \<open>double\<close>, the configuration in which the literals, \<open>M_PI\<close>, the \<open>double\<close> variables
  of the entry point and the coefficients all have one precision. A value is a finite
  real \<open>Fin x\<close>, one of the two infinities or \<open>NaN\<close>. Every operation on finite values
  computes the exact real result and rounds it with \<open>dbl\<close>, the IEEE binary64 rounding to
  nearest with ties to even: 53 significant bits, gradual underflow down to \<open>2^-1074\<close>,
  and an infinity when the rounded magnitude reaches \<open>2^1024\<close>. The special values follow
  the IEEE rules. The sign of zero is not modelled (a zero divisor counts as \<open>+0\<close>).
\<close>

datatype rta_real_t = Fin real | PInf | MInf | NaN

definition round_half_even :: "real \<Rightarrow> int" where
  "round_half_even r =
     (let f = \<lfloor>r\<rfloor>
      in if r - of_int f < 1 / 2 then f
         else if 1 / 2 < r - of_int f then f + 1
         else if even f then f else f + 1)"

definition huge :: real where
  "huge = 2 ^ 1024"

definition dbl :: "real \<Rightarrow> rta_real_t" where
  "dbl x =
     (if x = 0 then Fin 0
      else
        (let e = max (\<lfloor>log 2 \<bar>x\<bar>\<rfloor> - 52) (- 1074);
             y = of_int (round_half_even (x / 2 powr of_int e)) * 2 powr of_int e
         in if huge \<le> \<bar>y\<bar> then (if 0 < x then PInf else MInf) else Fin y))"

text \<open>
  In the product, an operand equal to 1 returns the other operand. For every \<open>double\<close>
  this is what rounding the exact product gives; it is written out because the cells of
  a buffer are not restricted to the values a \<open>double\<close> can hold.
\<close>

instantiation rta_real_t :: "{plus, minus, uminus, times, inverse}"
begin

fun uminus_rta_real_t :: "rta_real_t \<Rightarrow> rta_real_t" where
  "uminus_rta_real_t (Fin x) = Fin (- x)"
| "uminus_rta_real_t PInf = MInf"
| "uminus_rta_real_t MInf = PInf"
| "uminus_rta_real_t NaN = NaN"

fun plus_rta_real_t :: "rta_real_t \<Rightarrow> rta_real_t \<Rightarrow> rta_real_t" where
  "plus_rta_real_t (Fin x) (Fin y) = dbl (x + y)"
| "plus_rta_real_t NaN _ = NaN"
| "plus_rta_real_t _ NaN = NaN"
| "plus_rta_real_t PInf MInf = NaN"
| "plus_rta_real_t MInf PInf = NaN"
| "plus_rta_real_t PInf _ = PInf"
| "plus_rta_real_t _ PInf = PInf"
| "plus_rta_real_t MInf _ = MInf"
| "plus_rta_real_t _ MInf = MInf"

definition minus_rta_real_t :: "rta_real_t \<Rightarrow> rta_real_t \<Rightarrow> rta_real_t" where
  "minus_rta_real_t x y = x + (- y)"

fun times_rta_real_t :: "rta_real_t \<Rightarrow> rta_real_t \<Rightarrow> rta_real_t" where
  "times_rta_real_t (Fin x) (Fin y) =
     (if x = 1 then Fin y else if y = 1 then Fin x else dbl (x * y))"
| "times_rta_real_t NaN _ = NaN"
| "times_rta_real_t _ NaN = NaN"
| "times_rta_real_t PInf (Fin y) = (if y = 0 then NaN else if 0 < y then PInf else MInf)"
| "times_rta_real_t MInf (Fin y) = (if y = 0 then NaN else if 0 < y then MInf else PInf)"
| "times_rta_real_t (Fin x) PInf = (if x = 0 then NaN else if 0 < x then PInf else MInf)"
| "times_rta_real_t (Fin x) MInf = (if x = 0 then NaN else if 0 < x then MInf else PInf)"
| "times_rta_real_t PInf PInf = PInf"
| "times_rta_real_t PInf MInf = MInf"
| "times_rta_real_t MInf PInf = MInf"
| "times_rta_real_t MInf MInf = PInf"

fun divide_rta_real_t :: "rta_real_t \<Rightarrow> rta_real_t \<Rightarrow> rta_real_t" where
  "divide_rta_real_t (Fin x) (Fin y) =
     (if y = 0 then (if x = 0 then NaN else if 0 < x then PInf else MInf)
      else dbl (x / y))"
| "divide_rta_real_t NaN _ = NaN"
| "divide_rta_real_t _ NaN = NaN"
| "divide_rta_real_t (Fin x) PInf = Fin 0"
| "divide_rta_real_t (Fin x) MInf = Fin 0"
| "divide_rta_real_t PInf (Fin y) = (if 0 \<le> y then PInf else MInf)"
| "divide_rta_real_t MInf (Fin y) = (if 0 \<le> y then MInf else PInf)"
| "divide_rta_real_t PInf PInf = NaN"
| "divide_rta_real_t PInf MInf = NaN"
| "divide_rta_real_t MInf PInf = NaN"
| "divide_rta_real_t MInf MInf = NaN"

definition inverse_rta_real_t :: "rta_real_t \<Rightarrow> rta_real_t" where
  "inverse_rta_real_t x = divide (Fin 1) x"

instance ..

end

text \<open>
  Modelled from the spec: \<open>rta_math.h\<close>, which maps \<open>rta_sin\<close>, \<open>rta_cos\<close> and \<open>rta_sqrt\<close> to
  the C library function of the configured precision, is not among the sources. The spec
  calls them the trigonometric and square-root primitives; on a finite argument each
  returns the rounded value of the mathematical function, and on the special values the
  C library's result. \<open>M_PI\<close> is the \<open>double\<close> nearest to \<open>\<pi>\<close>.
\<close>

fun rta_sin :: "rta_real_t \<Rightarrow> rta_real_t" where
  "rta_sin (Fin x) = dbl (sin x)"
| "rta_sin _ = NaN"

fun rta_cos :: "rta_real_t \<Rightarrow> rta_real_t" where
  "rta_cos (Fin x) = dbl (cos x)"
| "rta_cos _ = NaN"

fun rta_sqrt :: "rta_real_t \<Rightarrow> rta_real_t" where
  "rta_sqrt (Fin x) = (if x < 0 then NaN else dbl (sqrt x))"
| "rta_sqrt PInf = PInf"
| "rta_sqrt _ = NaN"

definition M_PI :: rta_real_t where
  "M_PI = dbl pi"

section \<open>Biquad coefficients (\<open>rta_biquad.c\<close>)\<close>

text \<open>
  Every function of \<open>rta_biquad.c\<close> writes through the two pointers \<open>b\<close> (three cells) and
  \<open>a\<close> (two cells) and returns \<open>void\<close>. The five cells are the state: a function takes their
  contents on entry and returns their contents on return. The two buffers are taken to be
  disjoint.
\<close>

record coefs =
  b_0 :: rta_real_t
  b_1 :: rta_real_t
  b_2 :: rta_real_t
  a_0 :: rta_real_t
  a_1 :: rta_real_t

text \<open>LPF: \<open>H(s) = 1 / (s^2 + s/Q + 1)\<close>\<close>

definition rta_biquad_lowpass_coefs :: "coefs \<Rightarrow> rta_real_t \<Rightarrow> rta_real_t \<Rightarrow> coefs" where
  "rta_biquad_lowpass_coefs st f0 q =
     (let w0 = M_PI * f0;
          alpha = rta_sin w0 / (Fin 2 * q);
          c = rta_cos w0;
          a0_inv = Fin 1 / (Fin 1 + alpha);
          st = st\<lparr>a_0 := (- Fin 2 * c) * a0_inv\<rparr>;
          st = st\<lparr>a_1 := (Fin 1 - alpha) * a0_inv\<rparr>;
          st = st\<lparr>b_0 := ((Fin 1 - c) * Fin 0.5) * a0_inv\<rparr>;
          st = st\<lparr>b_1 := (Fin 1 - c) * a0_inv\<rparr>;
          st = st\<lparr>b_2 := b_0 st\<rparr>
      in st)"

text \<open>HPF: \<open>H(s) = s^2 / (s^2 + s/Q + 1)\<close>\<close>

definition rta_biquad_highpass_coefs :: "coefs \<Rightarrow> rta_real_t \<Rightarrow> rta_real_t \<Rightarrow> coefs" where
  "rta_biquad_highpass_coefs st f0 q =
     (let w0 = M_PI * f0;
          alpha = rta_sin w0 / (Fin 2 * q);
          c = rta_cos w0;
          a0_inv = Fin 1 / (Fin 1 + alpha);
          st = st\<lparr>a_0 := (- Fin 2 * c) * a0_inv\<rparr>;
          st = st\<lparr>a_1 := (Fin 1 - alpha) * a0_inv\<rparr>;
          st = st\<lparr>b_0 := ((Fin 1 + c) * Fin 0.5) * a0_inv\<rparr>;
          st = st\<lparr>b_1 := (- Fin 1 - c) * a0_inv\<rparr>;
          st = st\<lparr>b_2 := b_0 st\<rparr>
      in st)"

text \<open>BPF: \<open>H(s) = s / (s^2 + s/Q + 1)\<close> (constant skirt gain, peak gain = Q)\<close>

definition rta_biquad_bandpass_constant_skirt_coefs :: "coefs \<Rightarrow> rta_real_t \<Rightarrow> rta_real_t \<Rightarrow> coefs" where
  "rta_biquad_bandpass_constant_skirt_coefs st f0 q =
     (let w0 = M_PI * f0;
          s = rta_sin w0;
          alpha = s / (Fin 2 * q);
          c = rta_cos w0;
          a0_inv = Fin 1 / (Fin 1 + alpha);
          st = st\<lparr>a_0 := (- Fin 2 * c) * a0_inv\<rparr>;
          st = st\<lparr>a_1 := (Fin 1 - alpha) * a0_inv\<rparr>;
          st = st\<lparr>b_0 := (s * Fin 0.5) * a0_inv\<rparr>;
          st = st\<lparr>b_1 := Fin 0\<rparr>;
          st = st\<lparr>b_2 := - b_0 st\<rparr>
      in st)"

text \<open>BPF: \<open>H(s) = (s/Q) / (s^2 + s/Q + 1)\<close> (constant 0 dB peak gain)\<close>

definition rta_biquad_bandpass_constant_peak_coefs :: "coefs \<Rightarrow> rta_real_t \<Rightarrow> rta_real_t \<Rightarrow> coefs" where
  "rta_biquad_bandpass_constant_peak_coefs st f0 q =
     (let w0 = M_PI * f0;
          alpha = rta_sin w0 / (Fin 2 * q);
          c = rta_cos w0;
          a0_inv = Fin 1 / (Fin 1 + alpha);
          st = st\<lparr>a_0 := (- Fin 2 * c) * a0_inv\<rparr>;
          st = st\<lparr>a_1 := (Fin 1 - alpha) * a0_inv\<rparr>;
          st = st\<lparr>b_0 := alpha * a0_inv\<rparr>;
          st = st\<lparr>b_1 := Fin 0\<rparr>;
          st = st\<lparr>b_2 := - b_0 st\<rparr>
      in st)"

text \<open>notch: \<open>H(s) = (s^2 + 1) / (s^2 + s/Q + 1)\<close>. The source's second assignment to
  \<open>b\<close> is \<open>b[1] = b[1]\<close>.\<close>

definition rta_biquad_notch_coefs :: "coefs \<Rightarrow> rta_real_t \<Rightarrow> rta_real_t \<Rightarrow> coefs" where
  "rta_biquad_notch_coefs st f0 q =
     (let w0 = M_PI * f0;
          alpha = rta_sin w0 / (Fin 2 * q);
          c = rta_cos w0;
          a0_inv = Fin 1 / (Fin 1 + alpha);
          st = st\<lparr>a_0 := (- Fin 2 * c) * a0_inv\<rparr>;
          st = st\<lparr>a_1 := (Fin 1 - alpha) * a0_inv\<rparr>;
          st = st\<lparr>b_0 := a0_inv\<rparr>;
          st = st\<lparr>b_1 := b_1 st\<rparr>;
          st = st\<lparr>b_2 := b_0 st\<rparr>
      in st)"

text \<open>APF: \<open>H(s) = (s^2 - s/Q + 1) / (s^2 + s/Q + 1)\<close>\<close>

definition rta_biquad_allpass_coefs :: "coefs \<Rightarrow> rta_real_t \<Rightarrow> rta_real_t \<Rightarrow> coefs" where
  "rta_biquad_allpass_coefs st f0 q =
     (let w0 = M_PI * f0;
          alpha = rta_sin w0 / (Fin 2 * q);
          c = rta_cos w0;
          a0_inv = Fin 1 / (Fin 1 + alpha);
          st = st\<lparr>a_0 := (- Fin 2 * c) * a0_inv\<rparr>;
          st = st\<lparr>a_1 := (Fin 1 - alpha) * a0_inv\<rparr>;
          st = st\<lparr>b_0 := a_1 st\<rparr>;
          st = st\<lparr>b_1 := a_0 st\<rparr>;
          st = st\<lparr>b_2 := (Fin 1 + alpha) * a0_inv\<rparr>
      in st)"

text \<open>peakingEQ: \<open>H(s) = (s^2 + s*(A/Q) + 1) / (s^2 + s/(A*Q) + 1)\<close>; gain is linear.\<close>

definition rta_biquad_peaking_coefs ::
  "coefs \<Rightarrow> rta_real_t \<Rightarrow> rta_real_t \<Rightarrow> rta_real_t \<Rightarrow> coefs" where
  "rta_biquad_peaking_coefs st f0 q gain =
     (let g = rta_sqrt gain;
          g_inv = Fin 1 / g;
          w0 = M_PI * f0;
          alpha = rta_sin w0 / (Fin 2 * q);
          c = rta_cos w0;
          a0_inv = Fin 1 / (Fin 1 + alpha * g_inv);
          st = st\<lparr>a_0 := (- Fin 2 * c) * a0_inv\<rparr>;
          st = st\<lparr>a_1 := (Fin 1 - alpha * g_inv) * a0_inv\<rparr>;
          st = st\<lparr>b_0 := (Fin 1 + alpha * g) * a0_inv\<rparr>;
          st = st\<lparr>b_1 := a_0 st\<rparr>;
          st = st\<lparr>b_2 := (Fin 1 - alpha * g) * a0_inv\<rparr>
      in st)"

text \<open>lowShelf: \<open>H(s) = A * (s^2 + (sqrt(A)/Q)*s + A)/(A*s^2 + (sqrt(A)/Q)*s + 1)\<close>; gain is
  linear.\<close>

definition rta_biquad_lowshelf_coefs ::
  "coefs \<Rightarrow> rta_real_t \<Rightarrow> rta_real_t \<Rightarrow> rta_real_t \<Rightarrow> coefs" where
  "rta_biquad_lowshelf_coefs st f0 q gain =
     (let g = rta_sqrt gain;
          w0 = M_PI * f0;
          alpha_2_sqrtg = rta_sin w0 * rta_sqrt g / q;
          c = rta_cos w0;
          a0_inv = Fin 1 / ((g + Fin 1) + (g - Fin 1) * c + alpha_2_sqrtg);
          st = st\<lparr>a_0 := (- Fin 2 * ((g - Fin 1) + (g + Fin 1) * c)) * a0_inv\<rparr>;
          st = st\<lparr>a_1 := ((g + Fin 1) + (g - Fin 1) * c - alpha_2_sqrtg) * a0_inv\<rparr>;
          st = st\<lparr>b_0 := (g * ((g + Fin 1) - (g - Fin 1) * c + alpha_2_sqrtg)) * a0_inv\<rparr>;
          st = st\<lparr>b_1 := (Fin 2 * g * ((g - Fin 1) - (g + Fin 1) * c)) * a0_inv\<rparr>;
          st = st\<lparr>b_2 := (g * ((g + Fin 1) - (g - Fin 1) * c - alpha_2_sqrtg)) * a0_inv\<rparr>
      in st)"

text \<open>highShelf: \<open>H(s) = A * (A*s^2 + (sqrt(A)/Q)*s + 1)/(s^2 + (sqrt(A)/Q)*s + A)\<close>; gain is
  linear.\<close>

definition rta_biquad_highshelf_coefs ::
  "coefs \<Rightarrow> rta_real_t \<Rightarrow> rta_real_t \<Rightarrow> rta_real_t \<Rightarrow> coefs" where
  "rta_biquad_highshelf_coefs st f0 q gain =
     (let g = rta_sqrt gain;
          w0 = M_PI * f0;
          alpha_2_sqrtg = rta_sin w0 * rta_sqrt g / q;
          c = rta_cos w0;
          a0_inv = Fin 1 / ((g + Fin 1) - (g - Fin 1) * c + alpha_2_sqrtg);
          st = st\<lparr>a_0 := (Fin 2 * ((g - Fin 1) - (g + Fin 1) * c)) * a0_inv\<rparr>;
          st = st\<lparr>a_1 := ((g + Fin 1) - (g - Fin 1) * c - alpha_2_sqrtg) * a0_inv\<rparr>;
          st = st\<lparr>b_0 := (g * ((g + Fin 1) + (g - Fin 1) * c + alpha_2_sqrtg)) * a0_inv\<rparr>;
          st = st\<lparr>b_1 := (- Fin 2 * g * ((g - Fin 1) + (g + Fin 1) * c)) * a0_inv\<rparr>;
          st = st\<lparr>b_2 := (g * ((g + Fin 1) + (g - Fin 1) * c - alpha_2_sqrtg)) * a0_inv\<rparr>
      in st)"

text \<open>
  Modelled from the spec: \<open>rta_filter.h\<close>, which declares the enumeration \<open>rta_filter_t\<close>, is
  not among the sources. Its nine enumerators are the case labels of \<open>rta_biquad_coefs\<close> and
  the nine shapes the spec lists. An object of a C enumeration type can hold integers that
  are none of its enumerators; \<open>rta_filter_other n\<close> stands for such a tag.
\<close>

datatype rta_filter_t =
    rta_lowpass
  | rta_highpass
  | rta_bandpass_constant_skirt
  | rta_bandpass_constant_peak
  | rta_notch
  | rta_allpass
  | rta_peaking
  | rta_lowshelf
  | rta_highshelf
  | rta_filter_other int

text \<open>
  The helper \<open>rta_biquad_coefs\<close>: two \<open>switch\<close> statements on the tag, neither with a
  \<open>default\<close> label. The first calls the formula, the second multiplies the three \<open>b\<close> cells
  by \<open>gain\<close> for six of the tags when \<open>gain != 1.\<close> holds (which it does for \<open>NaN\<close>).
\<close>

definition rta_biquad_coefs ::
  "coefs \<Rightarrow> rta_filter_t \<Rightarrow> rta_real_t \<Rightarrow> rta_real_t \<Rightarrow> rta_real_t \<Rightarrow> coefs" where
  "rta_biquad_coefs st type f0 q gain =
     (let st =
            (case type of
               rta_lowpass \<Rightarrow> rta_biquad_lowpass_coefs st f0 q
             | rta_highpass \<Rightarrow> rta_biquad_highpass_coefs st f0 q
             | rta_bandpass_constant_skirt \<Rightarrow> rta_biquad_bandpass_constant_skirt_coefs st f0 q
             | rta_bandpass_constant_peak \<Rightarrow> rta_biquad_bandpass_constant_peak_coefs st f0 q
             | rta_notch \<Rightarrow> rta_biquad_notch_coefs st f0 q
             | rta_allpass \<Rightarrow> rta_biquad_allpass_coefs st f0 q
             | rta_peaking \<Rightarrow> rta_biquad_peaking_coefs st f0 q gain
             | rta_lowshelf \<Rightarrow> rta_biquad_lowshelf_coefs st f0 q gain
             | rta_highshelf \<Rightarrow> rta_biquad_highshelf_coefs st f0 q gain
             | rta_filter_other n \<Rightarrow> st);
          st =
            (if type = rta_lowpass \<or> type = rta_highpass \<or> type = rta_bandpass_constant_skirt
                \<or> type = rta_bandpass_constant_peak \<or> type = rta_notch \<or> type = rta_allpass
             then
               (if gain \<noteq> Fin 1
                then (let st = st\<lparr>b_0 := b_0 st * gain\<rparr>;
                          st = st\<lparr>b_1 := b_1 st * gain\<rparr>;
                          st = st\<lparr>b_2 := b_2 st * gain\<rparr>
                      in st)
                else st)
             else st)
      in st)"

section \<open>The pitch-estimation entry point (\<open>matlab/rta_mex_yin.c\<close>)\<close>

text \<open>C's \<open>ceil\<close> on the arithmetic type: infinities and \<open>NaN\<close> are returned unchanged.\<close>

fun rta_ceil :: "rta_real_t \<Rightarrow> rta_real_t" where
  "rta_ceil (Fin x) = Fin (of_int \<lceil>x\<rceil>)"
| "rta_ceil v = v"

text \<open>
  The cast \<open>(unsigned int)\<close> of a floating value truncates towards zero. Its behaviour is
  defined only when the truncated value fits the 32-bit \<open>unsigned int\<close>; everywhere else
  (also on infinities and \<open>NaN\<close>) the result is \<open>None\<close>.
\<close>

definition to_unsigned_int :: "rta_real_t \<Rightarrow> 32 word option" where
  "to_unsigned_int v =
     (case v of
        Fin x \<Rightarrow>
          if - 1 < x \<and> x < 2 ^ 32
          then Some (word_of_int (if x < 0 then \<lceil>x\<rceil> else \<lfloor>x\<rfloor>))
          else None
      | _ \<Rightarrow> None)"

text \<open>
  Modelled from the spec: \<open>rta_yin\<close> (\<open>rta_yin.h\<close>) is not among the sources, and the spec
  keeps the estimator's algorithm out of scope: only its call contract is used. The call
  \<open>rta_yin(&abs_min, autocorrelation, ac_size, real_input, input_size, yin_setup, threshold)\<close>
  is a parameter of the model: from the five inputs it gives the returned lag, the value
  stored in \<open>abs_min\<close> and the value stored in each cell of \<open>autocorrelation\<close>.
\<close>

type_synonym 's rta_yin_t =
  "32 word \<Rightarrow> rta_real_t list \<Rightarrow> 32 word \<Rightarrow> 's \<Rightarrow> rta_real_t
     \<Rightarrow> rta_real_t \<times> rta_real_t \<times> (nat \<Rightarrow> rta_real_t)"

text \<open>The five arrays the entry point creates in \<open>plhs[0..4]\<close>.\<close>

record mex_outputs =
  plhs_f0 :: rta_real_t
  plhs_energy :: rta_real_t
  plhs_periodicity :: rta_real_t
  plhs_ac1_over_ac0 :: rta_real_t
  plhs_autocorrelation :: "rta_real_t list"

text \<open>
  What a call leaves behind: either the five outputs, or nothing but the line printed by
  \<open>printf\<close>, whose four arguments are \<open>ac_size + 1\<close>, \<open>2 * ac_size\<close>, \<open>min_freq\<close> and
  \<open>sample_rate\<close>.
\<close>

datatype mex_result =
    Outputs mex_outputs
  | Diagnostic "32 word" "32 word" rta_real_t rta_real_t

text \<open>
  \<open>mexFunction\<close>, with the contents of \<open>prhs[0..4]\<close> as arguments. \<open>input_size\<close> is an \<open>int\<close>
  and \<open>ac_size\<close> an \<open>unsigned int\<close>, so the comparison and the subtraction between them are
  unsigned: \<open>input_size\<close> is kept as its 32-bit two's complement pattern, which is the value
  the conversion to \<open>unsigned int\<close> gives. The result is \<open>None\<close> where the C code has no defined behaviour: the cast
  above, and the read of \<open>autocorrelation[1]\<close> when the array has fewer than two cells.
  With \<open>rta_real_t\<close> configured as \<open>double\<close> the input is used as it is, and the
  conversion of the unsigned difference \<open>input_size - ac_size\<close> to \<open>double\<close> is exact.
\<close>

definition mexFunction ::
  "'s rta_yin_t \<Rightarrow> 's \<Rightarrow> rta_real_t list \<Rightarrow> rta_real_t \<Rightarrow> rta_real_t \<Rightarrow> rta_real_t
     \<Rightarrow> mex_result option" where
  "mexFunction rta_yin yin_setup input threshold min_freq sample_rate =
     (let input_size = (word_of_nat (length input) :: 32 word)
      in case to_unsigned_int (rta_ceil (sample_rate / min_freq)) of
           None \<Rightarrow> None
         | Some n \<Rightarrow>
             (let ac_size = n + 2
              in if ac_size < input_size
                 then
                   (if ac_size < 2 then None
                    else
                      (let real_input = input;
                           (lag, abs_min, ac) =
                              rta_yin ac_size real_input input_size yin_setup threshold;
                           autocorrelation = map ac [0..<unat ac_size];
                           f0 = sample_rate / lag;
                           energy = rta_sqrt (autocorrelation ! 0
                                      / Fin (real (unat (input_size - ac_size))));
                           periodicity = Fin 1 - rta_sqrt abs_min;
                           ac1_over_ac0 =
                             (if autocorrelation ! 0 \<noteq> Fin 0
                              then autocorrelation ! 1 / autocorrelation ! 0
                              else Fin 0)
                       in Some (Outputs \<lparr>plhs_f0 = f0, plhs_energy = energy,
                                  plhs_periodicity = periodicity,
                                  plhs_ac1_over_ac0 = ac1_over_ac0,
                                  plhs_autocorrelation = autocorrelation\<rparr>)))
                 else Some (Diagnostic (ac_size + 1) (2 * ac_size) min_freq sample_rate)))"

text \<open>
  A stand-in for the estimator, used where a closed example needs one: it reports the lag
  2, stores 0 in \<open>abs_min\<close>, 4 in \<open>autocorrelation[0]\<close> and 2 in every other cell.
\<close>

definition yin_sample :: "unit rta_yin_t" where
  "yin_sample ac_size real_input input_size yin_setup threshold =
     (Fin 2, Fin 0, \<lambda>i. if i = 0 then Fin 4 else Fin 2)"

section \<open>Auxiliary facts\<close>

subsection \<open>The rounding \<open>dbl\<close>\<close>

lemma dbl_unfold:
  assumes "x \<noteq> 0"
    and "e = max (\<lfloor>log 2 \<bar>x\<bar>\<rfloor> - 52) (- 1074)"
    and "u = 2 powr of_int e"
    and "m = round_half_even (x / u)"
  shows "dbl x = (if huge \<le> \<bar>of_int m * u\<bar> then (if 0 < x then PInf else MInf)
                  else Fin (of_int m * u))"
  unfolding dbl_def Let_def assms(2-4) using assms(1) by (simp only: if_False)

lemma dbl_zero: "dbl 0 = Fin 0"
  by (simp add: dbl_def)

lemma rhe_lower:
  assumes "of_int n \<le> r"
  shows "n \<le> round_half_even r"
proof -
  have "n \<le> \<lfloor>r\<rfloor>" using assms by (simp add: le_floor_iff)
  then show ?thesis by (auto simp add: round_half_even_def Let_def)
qed

lemma rhe_upper:
  assumes "r \<le> of_int n"
  shows "round_half_even r \<le> n"
proof (cases "r = of_int n")
  case True
  then show ?thesis by (simp add: round_half_even_def)
next
  case False
  with assms have "r < of_int n" by simp
  then have "\<lfloor>r\<rfloor> < n" by (simp add: floor_less_iff)
  then show ?thesis by (auto simp add: round_half_even_def Let_def)
qed

lemma rhe_of_int: "round_half_even (of_int n) = n"
  by (simp add: round_half_even_def)

lemma floor_log_bounds:
  assumes "x \<noteq> 0"
  shows "2 powr of_int \<lfloor>log 2 \<bar>x\<bar>\<rfloor> \<le> \<bar>x\<bar>" "\<bar>x\<bar> < 2 powr of_int (\<lfloor>log 2 \<bar>x\<bar>\<rfloor> + 1)"
proof -
  have pos: "0 < \<bar>x\<bar>" using assms by simp
  have "of_int \<lfloor>log 2 \<bar>x\<bar>\<rfloor> \<le> log 2 \<bar>x\<bar>" by simp
  then have "2 powr of_int \<lfloor>log 2 \<bar>x\<bar>\<rfloor> \<le> 2 powr log 2 \<bar>x\<bar>"
    by (rule powr_mono) simp
  then show "2 powr of_int \<lfloor>log 2 \<bar>x\<bar>\<rfloor> \<le> \<bar>x\<bar>"
    using pos by simp
  have "log 2 \<bar>x\<bar> < of_int (\<lfloor>log 2 \<bar>x\<bar>\<rfloor> + 1)" by linarith
  then have "2 powr log 2 \<bar>x\<bar> < 2 powr of_int (\<lfloor>log 2 \<bar>x\<bar>\<rfloor> + 1)"
    by (rule powr_less_mono) simp
  then show "\<bar>x\<bar> < 2 powr of_int (\<lfloor>log 2 \<bar>x\<bar>\<rfloor> + 1)"
    using pos by simp
qed

lemma floor_log_le:
  assumes "x \<noteq> 0" "\<bar>x\<bar> \<le> 2 powr of_int K"
  shows "\<lfloor>log 2 \<bar>x\<bar>\<rfloor> \<le> K"
proof -
  have "(2::real) powr of_int \<lfloor>log 2 \<bar>x\<bar>\<rfloor> \<le> 2 powr of_int K"
    using floor_log_bounds(1) [OF assms(1)] assms(2) by linarith
  then show ?thesis by simp
qed

lemma floor_log_ge:
  assumes "2 powr of_int k \<le> \<bar>x\<bar>"
  shows "k \<le> \<lfloor>log 2 \<bar>x\<bar>\<rfloor>"
proof -
  have "0 < 2 powr real_of_int k" by simp
  with assms have x0: "x \<noteq> 0" by auto
  have "(2::real) powr of_int k < 2 powr of_int (\<lfloor>log 2 \<bar>x\<bar>\<rfloor> + 1)"
    using floor_log_bounds(2) [OF x0] assms by linarith
  then have "real_of_int k < of_int (\<lfloor>log 2 \<bar>x\<bar>\<rfloor> + 1)" by simp
  then show ?thesis by linarith
qed

lemma powr_int_diff_int:
  assumes "e \<le> K"
  shows "(2::real) powr of_int K / 2 powr of_int e = of_int (2 ^ nat (K - e))"
proof -
  have "(2::real) powr of_int K / 2 powr of_int e = 2 powr (of_int K - of_int e)"
    by (simp add: powr_diff)
  also have "real_of_int K - of_int e = real (nat (K - e))"
    using assms by simp
  also have "(2::real) powr real (nat (K - e)) = 2 ^ nat (K - e)"
    by (simp add: powr_realpow)
  finally show ?thesis by simp
qed

lemma powr_lt_2_1024:
  assumes "K \<le> 1023"
  shows "(2::real) powr of_int K < huge"
proof -
  have "real_of_int K < real (1024::nat)" using assms by simp
  then have "(2::real) powr of_int K < 2 powr real (1024::nat)"
    by (rule powr_less_mono) simp
  also have "(2::real) powr real (1024::nat) = 2 ^ 1024"
    by (rule powr_realpow) simp
  finally show ?thesis by (simp only: huge_def)
qed

lemma dbl_finite:
  assumes "\<bar>x\<bar> \<le> 2 powr of_int K" "- 1022 \<le> K" "K \<le> 1023"
  shows "\<exists>y. dbl x = Fin y \<and> \<bar>y\<bar> \<le> 2 powr of_int K"
proof (cases "x = 0")
  case True
  then show ?thesis by (simp add: dbl_def)
next
  case False
  define e where "e = max (\<lfloor>log 2 \<bar>x\<bar>\<rfloor> - 52) (- 1074)"
  define u :: real where "u = 2 powr of_int e"
  define m where "m = round_half_even (x / u)"
  have u0: "0 < u" by (simp add: u_def)
  have "\<lfloor>log 2 \<bar>x\<bar>\<rfloor> \<le> K" using False assms(1) by (rule floor_log_le)
  then have eK: "e \<le> K" using assms(2) by (simp add: e_def)
  define n :: int where "n = 2 ^ nat (K - e)"
  have n: "2 powr of_int K / u = of_int n"
    unfolding u_def n_def using eK by (rule powr_int_diff_int)
  have "\<bar>x / u\<bar> \<le> 2 powr of_int K / u"
    using assms(1) u0 by (simp add: divide_right_mono)
  then have "\<bar>x / u\<bar> \<le> of_int n"
    unfolding n .
  then have "x / u \<le> of_int n" "- of_int n \<le> x / u"
    by linarith+
  then have "x / u \<le> of_int n" "of_int (- n) \<le> x / u"
    by (simp_all only: of_int_minus)
  then have "m \<le> n" "- n \<le> m"
    unfolding m_def by (simp_all only: rhe_upper rhe_lower)
  then have "\<bar>of_int m :: real\<bar> \<le> of_int n"
    by (simp add: abs_le_iff) 
  then have "\<bar>of_int m * u\<bar> \<le> of_int n * u"
    using u0 by (simp add: abs_mult mult_right_mono)
  also have "of_int n * u = 2 powr of_int K"
    using n u0 by (simp add: field_simps)
  finally have b: "\<bar>of_int m * u\<bar> \<le> 2 powr of_int K" .
  have "(2::real) powr of_int K < huge"
    using assms(3) by (rule powr_lt_2_1024)
  then have "\<not> huge \<le> \<bar>of_int m * u\<bar>" using b by linarith
  then have "dbl x = Fin (of_int m * u)"
    using dbl_unfold [OF False e_def u_def m_def] by (simp only: if_False)
  with b show ?thesis by blast
qed

lemma dbl_lower:
  assumes "2 powr of_int k \<le> x" "- 1022 \<le> k"
  shows "dbl x = PInf \<or> (\<exists>y. dbl x = Fin y \<and> 2 powr of_int k \<le> y)"
proof -
  have kpos: "0 < (2::real) powr of_int k" by simp
  with assms(1) have x0: "0 < x" by linarith
  then have ax: "\<bar>x\<bar> = x" by simp
  define L where "L = \<lfloor>log 2 \<bar>x\<bar>\<rfloor>"
  have "2 powr of_int k \<le> \<bar>x\<bar>" using assms(1) ax by simp
  then have kL: "k \<le> L" unfolding L_def by (rule floor_log_ge)
  define e where "e = max (L - 52) (- 1074)"
  have e: "e = L - 52" using kL assms(2) by (simp add: e_def)
  define u :: real where "u = 2 powr of_int e"
  define m where "m = round_half_even (x / u)"
  have u0: "0 < u" by (simp add: u_def)
  have Lx: "2 powr of_int L \<le> x"
    using floor_log_bounds(1) [of x] x0 ax by (simp add: L_def)
  have "2 powr of_int L / u = of_int (2 ^ nat (L - e))"
    unfolding u_def by (rule powr_int_diff_int) (simp add: e)
  then have n: "2 powr of_int L / u = of_int (2 ^ 52)"
    by (simp add: e)
  have "2 powr of_int L / u \<le> x / u"
    using Lx u0 by (simp add: divide_right_mono)
  then have "of_int (2 ^ 52) \<le> x / u" unfolding n .
  then have "2 ^ 52 \<le> m" unfolding m_def by (rule rhe_lower)
  then have "(of_int (2 ^ 52) :: real) \<le> of_int m" by (simp only: of_int_le_iff)
  then have "of_int (2 ^ 52) * u \<le> of_int m * u"
    using u0 by (simp only: mult_right_mono less_imp_le)
  moreover have "of_int (2 ^ 52) * u = 2 powr of_int L"
    using n u0 by (simp add: field_simps)
  ultimately have "2 powr of_int L \<le> of_int m * u" by simp
  moreover have "(2::real) powr of_int k \<le> 2 powr of_int L" using kL by simp
  ultimately have b: "2 powr of_int k \<le> of_int m * u" by linarith
  have xn: "x \<noteq> 0" using x0 by simp
  have "dbl x = (if huge \<le> \<bar>of_int m * u\<bar> then PInf else Fin (of_int m * u))"
    using dbl_unfold [OF xn e_def [unfolded L_def] u_def m_def] x0 by (simp only: if_True)
  with b show ?thesis by auto
qed

lemma dbl_Fin_lt_huge:
  assumes "dbl x = Fin y"
  shows "\<bar>y\<bar> < huge"
proof (cases "x = 0")
  case True
  with assms have "y = 0" by (simp add: dbl_def)
  then show ?thesis by (simp add: huge_def)
next
  case False
  from assms dbl_unfold [OF False refl refl refl] show ?thesis
    by (auto split: if_splits)
qed

lemma dbl_overflow:
  assumes "huge \<le> x"
  shows "dbl x = PInf"
proof -
  have "(2::real) powr real (1024::nat) = 2 ^ 1024"
    by (rule powr_realpow) simp
  then have p: "(2::real) powr of_int 1024 = huge"
    by (simp add: huge_def)
  from assms p have "2 powr of_int 1024 \<le> x" by simp
  then have "dbl x = PInf \<or> (\<exists>y. dbl x = Fin y \<and> 2 powr of_int 1024 \<le> y)"
    by (rule dbl_lower) simp
  moreover have "\<not> (\<exists>y. dbl x = Fin y \<and> 2 powr of_int 1024 \<le> y)"
  proof
    assume "\<exists>y. dbl x = Fin y \<and> 2 powr of_int 1024 \<le> y"
    then obtain y where y: "dbl x = Fin y" "huge \<le> y" unfolding p by blast
    from dbl_Fin_lt_huge [OF y(1)] y(2) show False by linarith
  qed
  ultimately show ?thesis by blast
qed

lemma dbl_pow2:
  assumes "- 1074 \<le> k" "k \<le> 1023"
  shows "dbl (2 powr of_int k) = Fin (2 powr of_int k)"
proof -
  define x :: real where "x = 2 powr of_int k"
  have x0: "0 < x" by (simp add: x_def)
  have L: "\<lfloor>log 2 \<bar>x\<bar>\<rfloor> = k" by (simp add: x_def)
  define e where "e = max (k - 52) (- 1074)"
  have ek: "e \<le> k" using assms(1) by (simp add: e_def)
  define u :: real where "u = 2 powr of_int e"
  have u0: "0 < u" by (simp add: u_def)
  have n: "x / u = of_int (2 ^ nat (k - e))"
    unfolding x_def u_def using ek by (rule powr_int_diff_int)
  have m: "round_half_even (x / u) = 2 ^ nat (k - e)"
    unfolding n by (rule rhe_of_int)
  have y: "of_int (round_half_even (x / u)) * u = x"
    unfolding m using n u0 by (simp add: field_simps)
  have "x < huge" unfolding x_def using assms(2) by (rule powr_lt_2_1024)
  then have "\<not> huge \<le> \<bar>x\<bar>" using x0 by linarith
  moreover have xn: "x \<noteq> 0" using x0 by simp
  ultimately have "dbl x = Fin x"
    using dbl_unfold [OF xn e_def [folded L] u_def refl] y by (simp only: if_False)
  then show ?thesis by (simp only: x_def)
qed

subsection \<open>The operations\<close>

lemma dbl_half: "dbl (1 / 2) = Fin (1 / 2)"
proof -
  have "(2::real) powr of_int (- 1) = 1 / 2"
    by (simp add: powr_minus_divide)
  with dbl_pow2 [of "- 1"] show ?thesis by simp
qed

lemma rta_times_commute: "x * y = y * (x :: rta_real_t)"
  by (cases x; cases y) (simp_all add: mult.commute)

lemma rta_one_times: "Fin 1 * x = x"
  by (cases x) simp_all

lemma rta_times_one: "x * Fin 1 = x"
  by (cases x) simp_all

lemma rta_times_zero: "Fin x * Fin 0 = Fin 0"
  by (simp add: dbl_zero)

lemma rta_times_half: "x * Fin (1 / 2) = x / Fin 2"
  by (cases x) (simp_all add: dbl_half)

lemma div_zero_special: "x / Fin 0 = PInf \<or> x / Fin 0 = MInf \<or> x / Fin 0 = NaN"
  by (cases x) simp_all

lemma special_times: 
  assumes "x = PInf \<or> x = MInf \<or> x = NaN"
  shows "x * y = PInf \<or> x * y = MInf \<or> x * y = NaN"
  using assms by (cases y) (auto split: if_splits)

lemma special_normalised:
  assumes "x = PInf \<or> x = MInf \<or> x = NaN"
  shows "(y - x) * (Fin 1 / (y + x)) = NaN"
  using assms by (cases y) (auto simp add: minus_rta_real_t_def)

lemmas formula_defs =
  rta_biquad_lowpass_coefs_def rta_biquad_highpass_coefs_def
  rta_biquad_bandpass_constant_skirt_coefs_def rta_biquad_bandpass_constant_peak_coefs_def
  rta_biquad_notch_coefs_def rta_biquad_allpass_coefs_def

lemma gainless_q0:
  "\<forall>f \<in> {rta_biquad_lowpass_coefs, rta_biquad_highpass_coefs,
                 rta_biquad_bandpass_constant_skirt_coefs,
                 rta_biquad_bandpass_constant_peak_coefs,
                 rta_biquad_notch_coefs, rta_biquad_allpass_coefs}.
           a_1 (f st f0 (Fin 0)) = NaN"
  using div_zero_special [of "rta_sin (M_PI * f0)"]
  by (simp add: formula_defs Let_def dbl_zero special_normalised)

lemma peaking_q0:
  "a_1 (rta_biquad_peaking_coefs st f0 (Fin 0) gain) = NaN"
  using special_times [OF div_zero_special [of "rta_sin (M_PI * f0)"]]
  by (simp add: rta_biquad_peaking_coefs_def Let_def dbl_zero special_normalised)

lemma lowshelf_q0:
  "a_1 (rta_biquad_lowshelf_coefs st f0 (Fin 0) gain) = NaN"
  using div_zero_special
  by (simp add: rta_biquad_lowshelf_coefs_def Let_def special_normalised)

lemma highshelf_q0:
  "a_1 (rta_biquad_highshelf_coefs st f0 (Fin 0) gain) = NaN"
  using div_zero_special
  by (simp add: rta_biquad_highshelf_coefs_def Let_def special_normalised)

lemma rta_biquad_coefs_a_1:
  "a_1 (rta_biquad_coefs st type f0 q gain) =
     (case type of
        rta_lowpass \<Rightarrow> a_1 (rta_biquad_lowpass_coefs st f0 q)
      | rta_highpass \<Rightarrow> a_1 (rta_biquad_highpass_coefs st f0 q)
      | rta_bandpass_constant_skirt \<Rightarrow> a_1 (rta_biquad_bandpass_constant_skirt_coefs st f0 q)
      | rta_bandpass_constant_peak \<Rightarrow> a_1 (rta_biquad_bandpass_constant_peak_coefs st f0 q)
      | rta_notch \<Rightarrow> a_1 (rta_biquad_notch_coefs st f0 q)
      | rta_allpass \<Rightarrow> a_1 (rta_biquad_allpass_coefs st f0 q)
      | rta_peaking \<Rightarrow> a_1 (rta_biquad_peaking_coefs st f0 q gain)
      | rta_lowshelf \<Rightarrow> a_1 (rta_biquad_lowshelf_coefs st f0 q gain)
      | rta_highshelf \<Rightarrow> a_1 (rta_biquad_highshelf_coefs st f0 q gain)
      | rta_filter_other n \<Rightarrow> a_1 st)"
  by (cases type) (simp_all add: rta_biquad_coefs_def Let_def)

subsection \<open>The angle \<open>M_PI * 0.5\<close> and its sine and cosine\<close>

lemma dbl_between:
  assumes "2 powr of_int k \<le> x" "x \<le> 2 powr of_int K" "- 1022 \<le> k" "- 1022 \<le> K" "K \<le> 1023"
  shows "\<exists>y. dbl x = Fin y \<and> 2 powr of_int k \<le> y \<and> y \<le> 2 powr of_int K"
proof -
  have "0 < (2::real) powr of_int k" by simp
  with assms(1) have "0 < x" by linarith
  with assms(2) have "\<bar>x\<bar> \<le> 2 powr of_int K" by simp
  then obtain y where y: "dbl x = Fin y" "\<bar>y\<bar> \<le> 2 powr of_int K"
    using dbl_finite [OF _ assms(4,5)] by blast
  from dbl_lower [OF assms(1,3)] y(1) have "2 powr of_int k \<le> y" by auto
  with y show ?thesis by auto
qed

lemma M_PI_bounds: "\<exists>p. M_PI = Fin p \<and> 2 \<le> p \<and> p \<le> 4"
proof -
  have "(2::real) powr of_int 1 \<le> pi" "pi \<le> 2 powr of_int 2"
    using pi_ge_two pi_less_4 by simp_all
  from dbl_between [OF this] show ?thesis
    by (simp add: M_PI_def)
qed

lemma w0_half: "\<exists>w. M_PI * Fin (1 / 2) = Fin w \<and> 1 \<le> w \<and> w \<le> 2"
proof -
  obtain p where p: "M_PI = Fin p" "2 \<le> p" "p \<le> 4"
    using M_PI_bounds by blast
  have "(2::real) powr of_int 0 \<le> p * (1 / 2)" "p * (1 / 2) \<le> 2 powr of_int 1"
    using p(2,3) by simp_all
  from dbl_between [OF this] obtain w where "dbl (p * (1 / 2)) = Fin w" "1 \<le> w" "w \<le> 2"
    by auto
  moreover have "M_PI * Fin (1 / 2) = dbl (p * (1 / 2))"
    unfolding p(1) using p(2) by simp
  ultimately show ?thesis by (simp only:) blast
qed

lemma sin_ge_quarter:
  assumes "1 \<le> w" "w \<le> (2::real)"
  shows "1 / 4 \<le> sin w"
proof -
  have "(\<Sum>m<3. sin_coeff m * w ^ m) = w"
    by (simp add: sin_coeff_def numeral_3_eq_3)
  with Maclaurin_sin_bound [of w 3] have "\<bar>sin w - w\<bar> \<le> inverse (fact 3) * \<bar>w\<bar> ^ 3"
    by simp
  moreover have "inverse (fact 3) * \<bar>w\<bar> ^ 3 = w ^ 3 / 6"
    using assms by (simp add: fact_numeral power3_eq_cube)
  ultimately have "w - w ^ 3 / 6 \<le> sin w" by linarith
  moreover have "w * w \<le> 2 * 2" using assms by (intro mult_mono) simp_all
  then have "w * w * w \<le> 4 * w" using assms by (simp add: mult_right_mono)
  then have "w ^ 3 \<le> 4 * w" by (simp add: power3_eq_cube)
  ultimately show ?thesis using assms by linarith
qed

lemma sin_w0: 
  assumes "1 \<le> w" "w \<le> 2"
  shows "\<exists>s. rta_sin (Fin w) = Fin s \<and> 1 / 4 \<le> s \<and> s \<le> 1"
proof -
  have q: "(2::real) powr of_int (- 2) = 1 / 4"
    by (simp add: powr_minus_divide)
  then have "2 powr of_int (- 2) \<le> sin w" "sin w \<le> 2 powr of_int 0"
    using sin_ge_quarter [OF assms] by simp_all
  from dbl_between [OF this] q show ?thesis
    by auto
qed

lemma cos_w0: "\<exists>c. rta_cos (Fin w) = Fin c \<and> \<bar>c\<bar> \<le> 1"
proof -
  have "\<bar>cos w\<bar> \<le> 2 powr of_int 0" by simp
  from dbl_finite [OF this] show ?thesis by auto
qed

text \<open>Sums and products of small finite values are finite.\<close>

lemma plus_small:
  assumes "\<bar>x\<bar> \<le> 1" "\<bar>y\<bar> \<le> 1"
  shows "\<exists>z. Fin x + Fin y = Fin z \<and> \<bar>z\<bar> \<le> 2"
proof -
  have "\<bar>x + y\<bar> \<le> 2 powr of_int 1" using assms by simp
  from dbl_finite [OF this] show ?thesis by auto
qed

lemma times_small:
  assumes "\<bar>x\<bar> \<le> 2" "\<bar>y\<bar> \<le> 2"
  shows "\<exists>z. Fin x * Fin y = Fin z"
proof -
  have "\<bar>x\<bar> * \<bar>y\<bar> \<le> 2 * 2"
    using assms by (intro mult_mono) simp_all
  then have "\<bar>x * y\<bar> \<le> 2 powr of_int 2" by (simp add: abs_mult)
  from dbl_finite [OF this] show ?thesis by auto
qed

lemma trig_half:
  "\<exists>s c. rta_sin (M_PI * Fin (1 / 2)) = Fin s \<and> 1 / 4 \<le> s \<and> s \<le> 1
       \<and> rta_cos (M_PI * Fin (1 / 2)) = Fin c \<and> \<bar>c\<bar> \<le> 1"
proof -
  obtain w where w: "M_PI * Fin (1 / 2) = Fin w" "1 \<le> w" "w \<le> 2"
    using w0_half by blast
  from sin_w0 [OF w(2,3)] cos_w0 [of w] show ?thesis
    unfolding w(1) by blast
qed

lemma dbl_small: "dbl 1 = Fin 1" "dbl 2 = Fin 2" "dbl 4 = Fin 4"
  using dbl_pow2 [of 0] dbl_pow2 [of 1] dbl_pow2 [of 2] by simp_all

lemma ceil_cast:
  assumes "- 1 < x" "\<lceil>x\<rceil> + 2 < 2 ^ 32"
  shows "to_unsigned_int (rta_ceil (Fin x)) = Some (word_of_int \<lceil>x\<rceil>)"
proof -
  define c where "c = \<lceil>x\<rceil>"
  have c0: "0 \<le> c"
    using assms(1) unfolding c_def by linarith
  have c1: "c < 2 ^ 32"
    using assms(2) unfolding c_def by linarith
  have r0: "0 \<le> real_of_int c"
    using c0 by (simp only: of_int_0_le_iff)
  have "real_of_int c < real_of_int (2 ^ 32)"
    using c1 by (simp only: of_int_less_iff)
  then have r1: "real_of_int c < 2 ^ 32"
    by simp
  have r2: "- 1 < real_of_int c" "\<not> real_of_int c < 0"
    using r0 by linarith+
  have "rta_ceil (Fin x) = Fin (real_of_int c)"
    by (simp add: c_def)
  moreover have "to_unsigned_int (Fin (real_of_int c)) = Some (word_of_int c)"
    unfolding to_unsigned_int_def using r1 r2 by (simp del: of_int_less_iff)
  ultimately show ?thesis
    by (simp only: c_def)
qed

lemma unat_word_of_nat32:
  assumes "m < 2 ^ 32"
  shows "unat (word_of_nat m :: 32 word) = m"
  using assms by (simp add: unat_of_nat)

lemma unat_ac_size:
  assumes "0 \<le> c" "c + 2 < 2 ^ 32"
  shows "word_of_int c + (2 :: 32 word) = word_of_nat (nat c + 2)"
    and "unat (word_of_int c + 2 :: 32 word) = nat c + 2"
proof -
  show e: "word_of_int c + (2 :: 32 word) = word_of_nat (nat c + 2)"
    using assms(1) by simp
  have "nat c + 2 < 2 ^ 32"
    using assms by simp
  then have "unat (word_of_nat (nat c + 2) :: 32 word) = nat c + 2"
    by (rule unat_word_of_nat32)
  then show "unat (word_of_int c + 2 :: 32 word) = nat c + 2"
    by (simp only: e)
qed

section \<open>The formula functions\<close>

text \<open>
  C1. \<open>rta_biquad_lowpass_coefs\<close> returns the cookbook lowpass coefficients: with
  \<open>w0 = \<pi> f0\<close>, \<open>c = cos w0\<close>, \<open>alpha = sin w0 / (2 q)\<close> and \<open>a0_inv = 1 / (1 + alpha)\<close>
  it stores \<open>a1 = -2 c a0_inv\<close>, \<open>a2 = (1 - alpha) a0_inv\<close>,
  \<open>b0 = b2 = ((1 - c) / 2) a0_inv\<close> and \<open>b1 = (1 - c) a0_inv\<close>, every operation being
  the rounded operation of the arithmetic; and the helper called with the lowpass tag and
  gain 1 returns the same coefficients, among them for \<open>f0 = 0.1\<close>, \<open>q = 0.7071\<close>. This
  holds for all \<open>f0\<close> and \<open>q\<close>, so in particular for \<open>f0\<close> in \<open>(0,1)\<close> and \<open>q > 0\<close>,
  where a subnormal \<open>q\<close> makes \<open>alpha\<close> infinite and the formulas themselves give \<open>NaN\<close>.
\<close>

theorem lowpass_cookbook:
  "let w0 = M_PI * f0; c = rta_cos w0; alpha = rta_sin w0 / (Fin 2 * q);
       a0_inv = Fin 1 / (Fin 1 + alpha);
       cookbook = st\<lparr>a_0 := - Fin 2 * c * a0_inv, a_1 := (Fin 1 - alpha) * a0_inv,
                    b_0 := (Fin 1 - c) / Fin 2 * a0_inv, b_1 := (Fin 1 - c) * a0_inv,
                    b_2 := (Fin 1 - c) / Fin 2 * a0_inv\<rparr>
   in rta_biquad_lowpass_coefs st f0 q = cookbook
    \<and> rta_biquad_coefs st rta_lowpass f0 q (Fin 1) = cookbook"
  by (simp add: rta_biquad_coefs_def rta_biquad_lowpass_coefs_def Let_def rta_times_half)

text \<open>
  C2. \<open>rta_biquad_notch_coefs\<close> assigns \<open>b[1]\<close> from itself: whatever \<open>f0\<close> and \<open>q\<close> are,
  the value of \<open>b[1]\<close> on return is the value it held on entry, not \<open>-2 c a0_inv\<close>.
\<close>

theorem notch_b1_kept:
  "b_1 (rta_biquad_notch_coefs st f0 q) = b_1 st"
  by (simp add: rta_biquad_notch_coefs_def Let_def)

text \<open>
  C7, as the spec states it: for every \<open>f0\<close> in \<open>(0,1)\<close> and \<open>q > 0\<close> the allpass \<open>b[2]\<close>,
  \<open>(1 + alpha) a0_inv\<close>, is the normalised \<open>a0\<close> and equals 1. At \<open>f0 = 1/2\<close> and the
  subnormal \<open>q = 2^-1070\<close> the quotient \<open>alpha = sin(w0) / (2 q)\<close> overflows to infinity,
  \<open>a0_inv = 1 / (1 + alpha)\<close> is 0, and \<open>b[2] = (1 + alpha) * a0_inv\<close> is \<open>NaN\<close>.
\<close>

theorem allpass_b2_nan:
  "(0::real) < 2 powr - 1070
   \<and> b_2 (rta_biquad_allpass_coefs
            \<lparr>b_0 = Fin 1, b_1 = Fin 2, b_2 = Fin 3, a_0 = Fin 4, a_1 = Fin 5\<rparr>
            (Fin (1 / 2)) (Fin (2 powr - 1070))) = NaN"
proof -
  obtain s c where sc: "rta_sin (M_PI * Fin (1 / 2)) = Fin s" "1 / 4 \<le> s"
      "rta_cos (M_PI * Fin (1 / 2)) = Fin c" "\<bar>c\<bar> \<le> 1"
    using trig_half by blast
  have q1: "(2::real) powr - 1070 \<noteq> 1"
  proof -
    have "(2::real) powr - 1070 < 2 powr 0" by (rule powr_less_mono) simp_all
    then show ?thesis by simp
  qed
  have "(2::real) * 2 powr - 1070 = 2 powr 1 * 2 powr - 1070" by simp
  also have "\<dots> = 2 powr of_int (- 1069)" by (simp only: powr_add [symmetric]) simp
  finally have e: "(2::real) * 2 powr - 1070 = 2 powr of_int (- 1069)" .
  have two_q: "Fin 2 * Fin (2 powr - 1070) = Fin (2 powr of_int (- 1069))"
    using q1 dbl_pow2 [of "- 1069"] by (simp add: e)
  have "huge = 2 powr real (1024::nat)"
    unfolding huge_def by (rule powr_realpow [symmetric]) simp
  also have "\<dots> \<le> 2 powr (- 2 + 1069)" by (rule powr_mono) simp_all
  also have "\<dots> = 2 powr (- 2) / 2 powr of_int (- 1069)"
    by (simp add: powr_add powr_minus field_simps)
  also have "\<dots> \<le> s / 2 powr of_int (- 1069)"
  proof (rule divide_right_mono)
    have "(2::real) powr (- 2) = 1 / 4" by (simp add: powr_minus_divide)
    with sc(2) show "2 powr (- 2) \<le> s" by simp
  qed simp
  finally have "dbl (s / 2 powr of_int (- 1069)) = PInf"
    by (rule dbl_overflow)
  then have alpha: "Fin s / Fin (2 powr of_int (- 1069)) = PInf"
    by simp
  have b2: "(Fin 1 + PInf) * (Fin 1 / (Fin 1 + PInf)) = NaN"
    by simp
  have "b_2 (rta_biquad_allpass_coefs
            \<lparr>b_0 = Fin 1, b_1 = Fin 2, b_2 = Fin 3, a_0 = Fin 4, a_1 = Fin 5\<rparr>
            (Fin (1 / 2)) (Fin (2 powr - 1070))) = NaN"
    unfolding rta_biquad_allpass_coefs_def Let_def sc(1,3) two_q alpha b2
    by simp
  then show ?thesis by simp
qed

text \<open>
  C7, amended: the allpass numerator is the reverse of the denominator as stored:
  \<open>b[0]\<close> is the stored \<open>a[1]\<close>, \<open>(1 - alpha) a0_inv\<close>; \<open>b[1]\<close> is the stored \<open>a[0]\<close>,
  \<open>-2 c a0_inv\<close>; and \<open>b[2]\<close> is the rounded product \<open>(1 + alpha) a0_inv\<close>, the
  normalised \<open>a0\<close> as the arithmetic computes it, which need not be exactly 1. This holds
  for all \<open>f0\<close> and \<open>q\<close>.
\<close>

theorem allpass_reverse:
  "let c = rta_cos (M_PI * f0); alpha = rta_sin (M_PI * f0) / (Fin 2 * q);
       a0_inv = Fin 1 / (Fin 1 + alpha);
       r = rta_biquad_allpass_coefs st f0 q
   in b_0 r = a_1 r \<and> b_0 r = (Fin 1 - alpha) * a0_inv
    \<and> b_1 r = a_0 r \<and> b_1 r = - Fin 2 * c * a0_inv
    \<and> b_2 r = (Fin 1 + alpha) * a0_inv"
  by (simp add: rta_biquad_allpass_coefs_def Let_def)

text \<open>
  C8. The lowpass, highpass, the two bandpass, the notch and the allpass functions store
  the same denominator: \<open>a[0] = -2 cos(\<pi> f0) a0_inv\<close> and \<open>a[1] = (1 - alpha) a0_inv\<close>
  with \<open>a0_inv = 1 / (1 + alpha)\<close>, every operation being the rounded operation of the
  arithmetic; the functions differ only in \<open>b\<close>. This holds for all \<open>f0\<close> and \<open>q\<close>, so
  in particular for \<open>f0\<close> in \<open>(0,1)\<close> and \<open>q > 0\<close>.
\<close>

theorem shared_denominator:
  "let alpha = rta_sin (M_PI * f0) / (Fin 2 * q); a0_inv = Fin 1 / (Fin 1 + alpha)
   in \<forall>f \<in> {rta_biquad_lowpass_coefs, rta_biquad_highpass_coefs,
             rta_biquad_bandpass_constant_skirt_coefs,
             rta_biquad_bandpass_constant_peak_coefs,
             rta_biquad_notch_coefs, rta_biquad_allpass_coefs}.
        a_0 (f st f0 q) = - Fin 2 * rta_cos (M_PI * f0) * a0_inv
      \<and> a_1 (f st f0 q) = (Fin 1 - alpha) * a0_inv"
  by (simp add: formula_defs Let_def)

theorem shared_denominator_witness:
  "rta_biquad_notch_coefs \<in> {rta_biquad_lowpass_coefs, rta_biquad_highpass_coefs,
             rta_biquad_bandpass_constant_skirt_coefs,
             rta_biquad_bandpass_constant_peak_coefs,
             rta_biquad_notch_coefs, rta_biquad_allpass_coefs}
   \<and> a_0 (rta_biquad_notch_coefs \<lparr>b_0 = Fin 1, b_1 = Fin 2, b_2 = Fin 3, a_0 = Fin 4, a_1 = Fin 5\<rparr> (Fin (1 / 2)) (Fin 1))
     = - Fin 2 * rta_cos (M_PI * Fin (1 / 2))
         * (Fin 1 / (Fin 1 + rta_sin (M_PI * Fin (1 / 2)) / (Fin 2 * Fin 1)))
   \<and> a_1 (rta_biquad_notch_coefs \<lparr>b_0 = Fin 1, b_1 = Fin 2, b_2 = Fin 3, a_0 = Fin 4, a_1 = Fin 5\<rparr> (Fin (1 / 2)) (Fin 1))
     = (Fin 1 - rta_sin (M_PI * Fin (1 / 2)) / (Fin 2 * Fin 1))
         * (Fin 1 / (Fin 1 + rta_sin (M_PI * Fin (1 / 2)) / (Fin 2 * Fin 1)))"
  using shared_denominator [of "Fin (1 / 2)" "Fin 1" "\<lparr>b_0 = Fin 1, b_1 = Fin 2, b_2 = Fin 3, a_0 = Fin 4, a_1 = Fin 5\<rparr>"]
  by (simp add: Let_def)

section \<open>Dispatch and gain in \<open>rta_biquad_coefs\<close>\<close>

text \<open>
  C3, as the spec states it: called with a tag that is none of the nine enumerators,
  \<open>rta_biquad_coefs\<close> returns an error and no coefficients. The function returns \<open>void\<close>
  and has no other way to report anything; with such a tag the call below returns, and
  the coefficients in the caller's buffers are the five stale values they held on entry.
\<close>

theorem unknown_type_returns_stale_coefs:
  "rta_biquad_coefs \<lparr>b_0 = Fin 1, b_1 = Fin 2, b_2 = Fin 3, a_0 = Fin 4, a_1 = Fin 5\<rparr>
     (rta_filter_other 9) (Fin (1 / 2)) (Fin 1) (Fin 2)
   = \<lparr>b_0 = Fin 1, b_1 = Fin 2, b_2 = Fin 3, a_0 = Fin 4, a_1 = Fin 5\<rparr>"
  by (simp add: rta_biquad_coefs_def)

text \<open>
  C3, amended: called with a tag that is none of the nine enumerators, \<open>rta_biquad_coefs\<close>
  reports no error: neither \<open>switch\<close> has a matching label, and the call returns with the
  \<open>b\<close> and \<open>a\<close> cells exactly as they were on entry.
\<close>

theorem unknown_type_unchanged:
  "rta_biquad_coefs st (rta_filter_other n) f0 q gain = st"
  by (simp add: rta_biquad_coefs_def)

text \<open>
  C4. For each of the six shapes without a gain parameter, the \<open>b\<close> coefficients of
  \<open>rta_biquad_coefs(type, f0, q, k)\<close> are \<open>k\<close> times those of
  \<open>rta_biquad_coefs(type, f0, q, 1)\<close>, and the \<open>a\<close> coefficients are the same for every
  \<open>k\<close>. Both calls start from the same buffer contents \<open>st\<close> (the notch reads \<open>b[1]\<close>).
  This holds for all values of \<open>f0\<close>, \<open>q\<close> and \<open>k\<close>, so in particular for \<open>f0\<close> in
  \<open>(0,1)\<close>, \<open>q > 0\<close> and \<open>k > 0\<close>.
\<close>

theorem gain_linearity:
  assumes "type \<in> {rta_lowpass, rta_highpass, rta_bandpass_constant_skirt,
                     rta_bandpass_constant_peak, rta_notch, rta_allpass}"
  shows "let r1 = rta_biquad_coefs st type f0 q (Fin 1);
             rk = rta_biquad_coefs st type f0 q k
         in b_0 rk = k * b_0 r1 \<and> b_1 rk = k * b_1 r1 \<and> b_2 rk = k * b_2 r1
          \<and> a_0 rk = a_0 r1 \<and> a_1 rk = a_1 r1"
  using assms
  by (auto simp add: rta_biquad_coefs_def Let_def rta_one_times rta_times_one
      rta_times_commute [of k])

theorem gain_linearity_witness:
  "rta_notch \<in> {rta_lowpass, rta_highpass, rta_bandpass_constant_skirt,
                  rta_bandpass_constant_peak, rta_notch, rta_allpass}
   \<and> b_1 (rta_biquad_coefs \<lparr>b_0 = Fin 1, b_1 = Fin 2, b_2 = Fin 3, a_0 = Fin 4, a_1 = Fin 5\<rparr>
            rta_notch (Fin (1 / 2)) (Fin 1) (Fin 3))
     = Fin 3 * b_1 (rta_biquad_coefs \<lparr>b_0 = Fin 1, b_1 = Fin 2, b_2 = Fin 3, a_0 = Fin 4, a_1 = Fin 5\<rparr>
            rta_notch (Fin (1 / 2)) (Fin 1) (Fin 1))
   \<and> a_1 (rta_biquad_coefs \<lparr>b_0 = Fin 1, b_1 = Fin 2, b_2 = Fin 3, a_0 = Fin 4, a_1 = Fin 5\<rparr>
            rta_notch (Fin (1 / 2)) (Fin 1) (Fin 3))
     = a_1 (rta_biquad_coefs \<lparr>b_0 = Fin 1, b_1 = Fin 2, b_2 = Fin 3, a_0 = Fin 4, a_1 = Fin 5\<rparr>
            rta_notch (Fin (1 / 2)) (Fin 1) (Fin 1))"
  using gain_linearity [of rta_notch
      "\<lparr>b_0 = Fin 1, b_1 = Fin 2, b_2 = Fin 3, a_0 = Fin 4, a_1 = Fin 5\<rparr>"
      "Fin (1 / 2)" "Fin 1" "Fin 3"]
  by (simp add: Let_def)

text \<open>
  C5. For the peaking, low-shelf and high-shelf tags \<open>rta_biquad_coefs\<close> returns exactly
  what the formula function of that shape computes: \<open>b0\<close>, \<open>b1\<close>, \<open>b2\<close> are not scaled by
  \<open>gain\<close> afterwards. This holds for all \<open>f0\<close>, \<open>q\<close> and \<open>gain\<close>.
\<close>

theorem gain_shapes_not_scaled:
  "rta_biquad_coefs st rta_peaking f0 q gain = rta_biquad_peaking_coefs st f0 q gain
   \<and> rta_biquad_coefs st rta_lowshelf f0 q gain = rta_biquad_lowshelf_coefs st f0 q gain
   \<and> rta_biquad_coefs st rta_highshelf f0 q gain = rta_biquad_highshelf_coefs st f0 q gain"
  by (simp add: rta_biquad_coefs_def)

text \<open>
  C6, as the spec states it: a call with \<open>q = 0\<close> returns a validation error and never a
  coefficient set with \<open>NaN\<close> in it. The call below, lowpass at \<open>f0 = 1/2\<close> with \<open>q = 0\<close>,
  returns, and the coefficient set it leaves has \<open>NaN\<close> in \<open>a[1]\<close>: \<open>alpha = sin(w0)/0\<close> is
  infinite, \<open>a0_inv = 1/(1 + alpha)\<close> is 0, and \<open>a[1] = (1 - alpha) * a0_inv\<close>.
\<close>

theorem q_zero_returns_nan_coefs:
  "rta_biquad_coefs \<lparr>b_0 = Fin 1, b_1 = Fin 2, b_2 = Fin 3, a_0 = Fin 4, a_1 = Fin 5\<rparr>
     rta_lowpass (Fin (1 / 2)) (Fin 0) (Fin 1)
   = \<lparr>b_0 = Fin 0, b_1 = Fin 0, b_2 = Fin 0, a_0 = Fin 0, a_1 = NaN\<rparr>"
proof -
  obtain s c where sc: "rta_sin (M_PI * Fin (1 / 2)) = Fin s" "1 / 4 \<le> s"
      "rta_cos (M_PI * Fin (1 / 2)) = Fin c" "\<bar>c\<bar> \<le> 1"
    using trig_half by blast
  have two_q: "Fin 2 * Fin 0 = Fin 0"
    by (rule rta_times_zero)
  have alpha: "Fin s / Fin 0 = PInf"
    using sc(2) by simp
  have a0_inv: "Fin 1 / (Fin 1 + PInf) = Fin 0"
    by simp
  obtain z where z: "- Fin 2 * Fin c = Fin z"
    using times_small [of "- 2" c] sc(4) by auto
  obtain t where t: "Fin 1 - Fin c = Fin t" "\<bar>t\<bar> \<le> 2"
    using plus_small [of 1 "- c"] sc(4) by (auto simp add: minus_rta_real_t_def)
  obtain t' where t': "Fin t * Fin 0.5 = Fin t'"
    using times_small [of t "0.5"] t(2) by auto
  have a1: "(Fin 1 - PInf) * Fin 0 = NaN"
    by (simp add: minus_rta_real_t_def)
  show ?thesis
    unfolding rta_biquad_coefs_def rta_biquad_lowpass_coefs_def Let_def
      sc(1,3) two_q alpha a0_inv z t(1) t' a1 rta_times_zero
    by simp
qed

text \<open>
  C6, amended: a call to \<open>rta_biquad_coefs\<close> with \<open>q = 0\<close> is not validated and returns no
  error: the formula selected by the tag runs, and for every one of the nine shapes, every
  \<open>f0\<close> in \<open>(0,1)\<close> and every \<open>gain > 0\<close> the coefficient set it leaves has \<open>NaN\<close> in
  \<open>a[1]\<close>.
\<close>

theorem q_zero_not_validated:
  assumes "0 < f0" "f0 < 1" "0 < gain"
    and "type \<in> {rta_lowpass, rta_highpass, rta_bandpass_constant_skirt,
                   rta_bandpass_constant_peak, rta_notch, rta_allpass,
                   rta_peaking, rta_lowshelf, rta_highshelf}"
  shows "a_1 (rta_biquad_coefs st type (Fin f0) (Fin 0) (Fin gain)) = NaN"
  using assms(4) gainless_q0 [of st "Fin f0"] peaking_q0 [of st "Fin f0" "Fin gain"]
    lowshelf_q0 [of st "Fin f0" "Fin gain"] highshelf_q0 [of st "Fin f0" "Fin gain"]
  by (auto simp add: rta_biquad_coefs_a_1)

theorem q_zero_not_validated_witness:
  "(0::real) < 1 / 4 \<and> (1 / 4 :: real) < 1 \<and> (0::real) < 2
   \<and> rta_highshelf \<in> {rta_lowpass, rta_highpass, rta_bandpass_constant_skirt,
                   rta_bandpass_constant_peak, rta_notch, rta_allpass,
                   rta_peaking, rta_lowshelf, rta_highshelf}
   \<and> a_1 (rta_biquad_coefs \<lparr>b_0 = Fin 1, b_1 = Fin 2, b_2 = Fin 3, a_0 = Fin 4, a_1 = Fin 5\<rparr>
            rta_highshelf (Fin (1 / 4)) (Fin 0) (Fin 2)) = NaN"
  using q_zero_not_validated [of "1 / 4" 2 rta_highshelf
      "\<lparr>b_0 = Fin 1, b_1 = Fin 2, b_2 = Fin 3, a_0 = Fin 4, a_1 = Fin 5\<rparr>"]
  by simp

section \<open>The buffer gate and the guarded division of \<open>mexFunction\<close>\<close>

text \<open>
  C9, as the spec states it: the required size is \<open>ceil(sampleRate/minFreq) + 2\<close>, and the
  diagnostic replaces the outputs exactly when the input buffer is shorter than that. At a
  sample rate of 8 and a minimum frequency of 2 the quotient is 4 and the size is 6; a
  buffer of 6 samples is not shorter than 6, and the call still only prints the diagnostic
  (7 points expected, 12 recommended).
\<close>

theorem buffer_of_required_size_rejected:
  "Fin 8 / Fin 2 = Fin 4
   \<and> \<not> length [Fin 0, Fin 0, Fin 0, Fin 0, Fin 0, Fin 0] < nat \<lceil>4 :: real\<rceil> + 2
   \<and> mexFunction yin_sample () [Fin 0, Fin 0, Fin 0, Fin 0, Fin 0, Fin 0]
        (Fin (1 / 10)) (Fin 2) (Fin 8)
     = Some (Diagnostic 7 12 (Fin 2) (Fin 8))"
  by (simp add: mexFunction_def to_unsigned_int_def Let_def dbl_small)

text \<open>
  C9, amended: the entry point computes \<open>ac_size = ceil(x) + 2\<close>, where \<open>x\<close> is the quotient
  \<open>sampleRate/minFreq\<close> as the \<open>double\<close> division rounds it. Exactly when the input buffer
  has at most \<open>ac_size\<close> samples (fewer than the \<open>ac_size + 1\<close> the diagnostic asks for) it
  produces no output and only prints the diagnostic, with \<open>ac_size + 1\<close> as the minimum
  and \<open>2 * ac_size\<close>, reduced modulo \<open>2^32\<close>, as the recommended length. When the buffer
  has more than \<open>ac_size\<close> samples it calls \<open>rta_yin\<close> and fills the five outputs from the
  lag, the minimum and the autocorrelation that \<open>rta_yin\<close> gives: \<open>f0 = sampleRate / lag\<close>,
  \<open>energy = sqrt(autocorrelation[0] / (input_size - ac_size))\<close>,
  \<open>periodicity = 1 - sqrt(abs_min)\<close>, \<open>ac1_over_ac0\<close> with its guard, and the \<open>ac_size\<close>
  cells of the autocorrelation. This is for a quotient that is finite and above \<open>-1\<close>,
  an \<open>ac_size\<close> below \<open>2^32\<close>, and a buffer length that fits an \<open>int\<close>.
\<close>

theorem yin_buffer_gate:
  assumes "sample_rate / min_freq = Fin x" "- 1 < x" "\<lceil>x\<rceil> + 2 < 2 ^ 32"
    and "length input < 2 ^ 31"
  shows "let ac_size = nat \<lceil>x\<rceil> + 2;
             res = mexFunction rta_yin yin_setup input threshold min_freq sample_rate
         in if length input \<le> ac_size
            then res = Some (Diagnostic (of_nat (ac_size + 1)) (of_nat (2 * ac_size))
                               min_freq sample_rate)
            else res =
              (case rta_yin (of_nat ac_size) input (of_nat (length input)) yin_setup threshold of
                 (lag, abs_min, ac) \<Rightarrow>
                   Some (Outputs \<lparr>plhs_f0 = sample_rate / lag,
                     plhs_energy = rta_sqrt (ac 0 / Fin (real (length input - ac_size))),
                     plhs_periodicity = Fin 1 - rta_sqrt abs_min,
                     plhs_ac1_over_ac0 = (if ac 0 \<noteq> Fin 0 then ac 1 / ac 0 else Fin 0),
                     plhs_autocorrelation = map ac [0..<ac_size]\<rparr>))"
proof -
  define c where "c = \<lceil>x\<rceil>"
  define n where "n = nat c + 2"
  define w :: "32 word" where "w = word_of_int c + 2"
  define isz :: "32 word" where "isz = word_of_nat (length input)"
  have c0: "0 \<le> c"
    using assms(2) unfolding c_def by linarith
  have cast: "to_unsigned_int (rta_ceil (sample_rate / min_freq)) = Some (word_of_int c)"
    unfolding c_def assms(1) using assms(2,3) by (rule ceil_cast)
  have wn: "w = word_of_nat n"
    unfolding w_def n_def using c0 assms(3) [folded c_def] by (rule unat_ac_size(1))
  have uw: "unat w = n"
    unfolding w_def n_def using c0 assms(3) [folded c_def] by (rule unat_ac_size(2))
  have "length input < 2 ^ 32"
    using assms(4) by simp
  then have ui: "unat isz = length input"
    unfolding isz_def by (rule unat_word_of_nat32)
  have lt: "w < isz \<longleftrightarrow> n < length input"
    by (simp only: word_less_nat_alt uw ui)
  have ge2: "\<not> w < 2"
    using uw by (simp add: word_less_nat_alt n_def)
  have w1: "w + 1 = of_nat (n + 1)"
    by (simp add: wn)
  have w2: "2 * w = of_nat (2 * n)"
    by (simp add: wn)
  have run: "mexFunction rta_yin yin_setup input threshold min_freq sample_rate =
     (if w < isz
      then (case rta_yin w input isz yin_setup threshold of (lag, abs_min, ac) \<Rightarrow>
              Some (Outputs \<lparr>plhs_f0 = sample_rate / lag,
                 plhs_energy = rta_sqrt (map ac [0..<unat w] ! 0 / Fin (real (unat (isz - w)))),
                 plhs_periodicity = Fin 1 - rta_sqrt abs_min,
                 plhs_ac1_over_ac0 =
                   (if map ac [0..<unat w] ! 0 \<noteq> Fin 0
                    then map ac [0..<unat w] ! 1 / map ac [0..<unat w] ! 0 else Fin 0),
                 plhs_autocorrelation = map ac [0..<unat w]\<rparr>))
      else Some (Diagnostic (w + 1) (2 * w) min_freq sample_rate))"
    unfolding mexFunction_def cast Let_def option.case w_def [symmetric] isz_def [symmetric]
    using ge2 by (simp only: if_False)
  show ?thesis
  proof (cases "length input \<le> n")
    case True
    then have "\<not> w < isz"
      using lt by simp
    then have "mexFunction rta_yin yin_setup input threshold min_freq sample_rate
               = Some (Diagnostic (w + 1) (2 * w) min_freq sample_rate)"
      by (simp only: run if_False)
    with True show ?thesis
      by (simp only: Let_def w1 w2 n_def [symmetric] c_def [symmetric] if_True)
  next
    case False
    then have less: "w < isz" "n < length input"
      using lt by simp_all
    have n2: "0 < n" "1 < n" by (simp_all add: n_def)
    have sub: "unat (isz - w) = length input - n"
      using less(1) by (simp add: unat_sub ui uw order_less_imp_le)
    have nth: "map ac [0..<n] ! 0 = ac 0" "map ac [0..<n] ! 1 = ac 1" for ac :: "nat \<Rightarrow> rta_real_t"
      using n2 by simp_all
    have "mexFunction rta_yin yin_setup input threshold min_freq sample_rate =
        (case rta_yin w input isz yin_setup threshold of (lag, abs_min, ac) \<Rightarrow>
              Some (Outputs \<lparr>plhs_f0 = sample_rate / lag,
                 plhs_energy = rta_sqrt (ac 0 / Fin (real (length input - n))),
                 plhs_periodicity = Fin 1 - rta_sqrt abs_min,
                 plhs_ac1_over_ac0 = (if ac 0 \<noteq> Fin 0 then ac 1 / ac 0 else Fin 0),
                 plhs_autocorrelation = map ac [0..<n]\<rparr>))"
      using less(1) by (simp only: run if_True uw sub nth)
    with False show ?thesis
      by (simp only: Let_def n_def [symmetric] c_def [symmetric] if_False wn [symmetric]
          isz_def [symmetric])
  qed
qed

theorem yin_buffer_gate_witness:
  "Fin 8 / Fin 2 = Fin 4 \<and> - 1 < (4::real) \<and> \<lceil>4::real\<rceil> + 2 < 2 ^ 32
   \<and> length [Fin 0, Fin 0, Fin 0, Fin 0, Fin 0, Fin 0, Fin 0 :: rta_real_t] < 2 ^ 31
   \<and> \<not> length [Fin 0, Fin 0, Fin 0, Fin 0, Fin 0, Fin 0, Fin 0 :: rta_real_t] \<le> 6
   \<and> mexFunction yin_sample () [Fin 0, Fin 0, Fin 0, Fin 0, Fin 0, Fin 0, Fin 0]
        (Fin (1 / 10)) (Fin 2) (Fin 8)
     = Some (Outputs \<lparr>plhs_f0 = Fin 8 / Fin 2,
          plhs_energy = rta_sqrt (Fin 4 / Fin 1),
          plhs_periodicity = Fin 1 - rta_sqrt (Fin 0),
          plhs_ac1_over_ac0 = Fin 2 / Fin 4,
          plhs_autocorrelation = [Fin 4, Fin 2, Fin 2, Fin 2, Fin 2, Fin 2]\<rparr>)"
proof -
  have q: "Fin 8 / Fin 2 = Fin 4"
    by (simp add: dbl_small)
  have "- 1 < (4::real)" "\<lceil>4::real\<rceil> + 2 < 2 ^ 32"
    "length [Fin 0, Fin 0, Fin 0, Fin 0, Fin 0, Fin 0, Fin 0 :: rta_real_t] < 2 ^ 31"
    by simp_all
  from yin_buffer_gate [OF q this, of yin_sample "()" "Fin (1 / 10)"] q show ?thesis
    by (simp add: Let_def yin_sample_def upt_rec)
qed

text \<open>
  C10. Whenever the entry point produces outputs, the \<open>ac1_over_ac0\<close> output is
  \<open>autocorrelation[1] / autocorrelation[0]\<close> if \<open>autocorrelation[0]\<close> is not zero and
  \<open>0.0\<close> if it is zero: the division is never made with a zero divisor.
\<close>

theorem ac1_over_ac0_guarded:
  assumes "mexFunction rta_yin yin_setup input threshold min_freq sample_rate
             = Some (Outputs out)"
  shows "plhs_ac1_over_ac0 out =
           (if plhs_autocorrelation out ! 0 \<noteq> Fin 0
            then plhs_autocorrelation out ! 1 / plhs_autocorrelation out ! 0
            else Fin 0)"
proof (cases "to_unsigned_int (rta_ceil (sample_rate / min_freq))")
  case None
  with assms show ?thesis
    by (simp add: mexFunction_def)
next
  case (Some n)
  obtain lag abs_min ac where y:
    "rta_yin (n + 2) input (word_of_nat (length input)) yin_setup threshold = (lag, abs_min, ac)"
    by (cases "rta_yin (n + 2) input (word_of_nat (length input)) yin_setup threshold") blast
  show ?thesis
  proof (cases "n + 2 < word_of_nat (length input) \<and> \<not> n + 2 < 2")
    case True
    with assms Some y have "out = \<lparr>plhs_f0 = sample_rate / lag,
        plhs_energy = rta_sqrt (map ac [0..<unat (n + 2)] ! 0
                        / Fin (real (unat (word_of_nat (length input) - (n + 2))))),
        plhs_periodicity = Fin 1 - rta_sqrt abs_min,
        plhs_ac1_over_ac0 =
          (if map ac [0..<unat (n + 2)] ! 0 \<noteq> Fin 0
           then map ac [0..<unat (n + 2)] ! 1 / map ac [0..<unat (n + 2)] ! 0
           else Fin 0),
        plhs_autocorrelation = map ac [0..<unat (n + 2)]\<rparr>"
      by (simp add: mexFunction_def Let_def)
    then show ?thesis
      by simp
  next
    case False
    with assms Some show ?thesis
      by (auto simp add: mexFunction_def Let_def split: if_splits)
  qed
qed

theorem ac1_over_ac0_guarded_witness:
  "mexFunction yin_sample () [Fin 0, Fin 0, Fin 0, Fin 0, Fin 0, Fin 0, Fin 0]
     (Fin (1 / 10)) (Fin 2) (Fin 8)
   = Some (Outputs \<lparr>plhs_f0 = Fin 4, plhs_energy = Fin 2, plhs_periodicity = Fin 1,
        plhs_ac1_over_ac0 = Fin (1 / 2),
        plhs_autocorrelation = [Fin 4, Fin 2, Fin 2, Fin 2, Fin 2, Fin 2]\<rparr>)
   \<and> plhs_ac1_over_ac0 \<lparr>plhs_f0 = Fin 4, plhs_energy = Fin 2, plhs_periodicity = Fin 1,
        plhs_ac1_over_ac0 = Fin (1 / 2),
        plhs_autocorrelation = [Fin 4, Fin 2, Fin 2, Fin 2, Fin 2, Fin 2]\<rparr>
     = [Fin 4, Fin 2, Fin 2, Fin 2, Fin 2, Fin 2] ! 1 / [Fin 4, Fin 2, Fin 2, Fin 2, Fin 2, Fin 2] ! 0"
proof -
  have run: "mexFunction yin_sample () [Fin 0, Fin 0, Fin 0, Fin 0, Fin 0, Fin 0, Fin 0]
      (Fin (1 / 10)) (Fin 2) (Fin 8)
    = Some (Outputs \<lparr>plhs_f0 = Fin 4, plhs_energy = Fin 2, plhs_periodicity = Fin 1,
        plhs_ac1_over_ac0 = Fin (1 / 2),
        plhs_autocorrelation = [Fin 4, Fin 2, Fin 2, Fin 2, Fin 2, Fin 2]\<rparr>)"
    by (simp add: mexFunction_def to_unsigned_int_def Let_def yin_sample_def
        minus_rta_real_t_def upt_rec dbl_small dbl_half dbl_zero)
  from ac1_over_ac0_guarded [OF run] run show ?thesis
    by simp
qed

end
